theory Spec2Isabelle
  imports Complex_Main
begin

section \<open>Numbers\<close>

text \<open>
  The C++ sources compute with \<^verbatim>\<open>double\<close>. Values read from the feed or supplied by
  the operator are taken to be finite numbers and are modelled as \<^typ>\<open>real\<close>; rounding,
  overflow and the sign of zero are not modelled. HOL's functions on the reals are total
  (\<open>x / 0 = 0\<close>, \<open>ln 0 = 0\<close>), which is not what the hardware does, so every operation that
  IEEE 754 sends outside the finite numbers (division by zero, logarithm of a non-positive
  number, a fractional power of a negative number) produces a value of the type \<open>dbl\<close>
  below, which has the two infinities and NaN beside the finite numbers, and so does
  everything the program computes from such a value: the volatility of the statistics,
  and with it the slippage, the maker proportion, the fees, the impact and the net cost.
  A zero divisor is taken to be \<open>+0.0\<close>.
\<close>

datatype dbl = Fin real | PInf | NInf | NaN

fun dneg :: "dbl \<Rightarrow> dbl" where
  "dneg (Fin x) = Fin (- x)"
| "dneg PInf = NInf"
| "dneg NInf = PInf"
| "dneg NaN = NaN"

fun dadd :: "dbl \<Rightarrow> dbl \<Rightarrow> dbl" where
  "dadd (Fin x) (Fin y) = Fin (x + y)"
| "dadd NaN b = NaN"
| "dadd a NaN = NaN"
| "dadd PInf NInf = NaN"
| "dadd NInf PInf = NaN"
| "dadd PInf b = PInf"
| "dadd a PInf = PInf"
| "dadd NInf b = NInf"
| "dadd a NInf = NInf"

definition dsub :: "dbl \<Rightarrow> dbl \<Rightarrow> dbl" where
  "dsub a b = dadd a (dneg b)"

fun dmul :: "dbl \<Rightarrow> dbl \<Rightarrow> dbl" where
  "dmul (Fin x) (Fin y) = Fin (x * y)"
| "dmul NaN b = NaN"
| "dmul a NaN = NaN"
| "dmul (Fin x) PInf = (if x = 0 then NaN else if 0 < x then PInf else NInf)"
| "dmul (Fin x) NInf = (if x = 0 then NaN else if 0 < x then NInf else PInf)"
| "dmul PInf (Fin y) = (if y = 0 then NaN else if 0 < y then PInf else NInf)"
| "dmul NInf (Fin y) = (if y = 0 then NaN else if 0 < y then NInf else PInf)"
| "dmul PInf PInf = PInf"
| "dmul PInf NInf = NInf"
| "dmul NInf PInf = NInf"
| "dmul NInf NInf = PInf"

fun ddiv :: "dbl \<Rightarrow> dbl \<Rightarrow> dbl" where
  "ddiv (Fin x) (Fin y) =
     (if y = 0 then (if x = 0 then NaN else if 0 < x then PInf else NInf) else Fin (x / y))"
| "ddiv NaN b = NaN"
| "ddiv a NaN = NaN"
| "ddiv (Fin x) PInf = Fin 0"
| "ddiv (Fin x) NInf = Fin 0"
| "ddiv PInf (Fin y) = (if y < 0 then NInf else PInf)"
| "ddiv NInf (Fin y) = (if y < 0 then PInf else NInf)"
| "ddiv PInf PInf = NaN"
| "ddiv PInf NInf = NaN"
| "ddiv NInf PInf = NaN"
| "ddiv NInf NInf = NaN"

text \<open>The comparison \<^verbatim>\<open>a < b\<close>: false as soon as one side is NaN.\<close>

fun dlt :: "dbl \<Rightarrow> dbl \<Rightarrow> bool" where
  "dlt (Fin x) (Fin y) = (x < y)"
| "dlt NaN b = False"
| "dlt a NaN = False"
| "dlt a NInf = False"
| "dlt PInf b = False"
| "dlt NInf b = True"
| "dlt a PInf = True"



text \<open>
  \<^verbatim>\<open>std::min(a, b)\<close> is \<^verbatim>\<open>(b < a) ? b : a\<close> and \<^verbatim>\<open>std::max(a, b)\<close> is
  \<^verbatim>\<open>(a < b) ? b : a\<close>: both return their first argument when a comparison with NaN fails.
\<close>

definition std_min :: "dbl \<Rightarrow> dbl \<Rightarrow> dbl" where
  "std_min a b = (if dlt b a then b else a)"

definition std_max :: "dbl \<Rightarrow> dbl \<Rightarrow> dbl" where
  "std_max a b = (if dlt a b then b else a)"

fun dabs :: "dbl \<Rightarrow> dbl" where
  "dabs (Fin x) = Fin \<bar>x\<bar>"
| "dabs PInf = PInf"
| "dabs NInf = PInf"
| "dabs NaN = NaN"

fun dexp :: "dbl \<Rightarrow> dbl" where
  "dexp (Fin x) = Fin (exp x)"
| "dexp PInf = PInf"
| "dexp NInf = Fin 0"
| "dexp NaN = NaN"

fun dlog :: "dbl \<Rightarrow> dbl" where
  "dlog (Fin x) = (if 0 < x then Fin (ln x) else if x = 0 then NInf else NaN)"
| "dlog PInf = PInf"
| "dlog NInf = NaN"
| "dlog NaN = NaN"

fun dsqrt :: "dbl \<Rightarrow> dbl" where
  "dsqrt (Fin x) = (if x < 0 then NaN else Fin (sqrt x))"
| "dsqrt PInf = PInf"
| "dsqrt NInf = NaN"
| "dsqrt NaN = NaN"

text \<open>\<^verbatim>\<open>std::pow(x, 0.5)\<close> at a finite \<open>x\<close>: NaN for a negative base.\<close>

definition pow_half :: "real \<Rightarrow> dbl" where
  "pow_half x = (if x < 0 then NaN else Fin (sqrt x))"

text \<open>\<^verbatim>\<open>std::clamp(v, lo, hi)\<close> is \<^verbatim>\<open>(v < lo) ? lo : (hi < v) ? hi : v\<close>.\<close>

definition clamp :: "real \<Rightarrow> real \<Rightarrow> real \<Rightarrow> real" where
  "clamp v lo hi = (if v < lo then lo else if hi < v then hi else v)"

definition std_clamp :: "dbl \<Rightarrow> dbl \<Rightarrow> dbl \<Rightarrow> dbl" where
  "std_clamp v lo hi = (if dlt v lo then lo else if dlt hi v then hi else v)"

text \<open>The sum of a list of slices, left to right.\<close>

definition dsum :: "dbl list \<Rightarrow> dbl" where
  "dsum xs = foldl dadd (Fin 0) xs"


section \<open>Order-book data (orderbook\_types.h)\<close>

type_synonym PriceLevel = "real \<times> real"

type_synonym PriceLevels = "PriceLevel list"

record OrderbookData =
  timestamp :: string
  exchange :: string
  symbol :: string
  asks :: PriceLevels
  bids :: PriceLevels
  received_time :: nat

record OrderbookStats =
  midprice :: real
  spread :: real
  best_ask :: real
  best_bid :: real
  weighted_ask_price :: real
  weighted_bid_price :: real
  total_ask_size :: real
  total_bid_size :: real
  order_imbalance :: real
  price_volatility :: dbl
  processing_latency :: nat

text \<open>The default member initialisers.\<close>

definition OrderbookStats_default :: OrderbookStats where
  "OrderbookStats_default =
     \<lparr>midprice = 0, spread = 0, best_ask = 0, best_bid = 0, weighted_ask_price = 0,
      weighted_bid_price = 0, total_ask_size = 0, total_bid_size = 0, order_imbalance = 0,
      price_volatility = Fin 0, processing_latency = 0\<rparr>"


section \<open>OrderbookProcessor (orderbook\_processor.h, orderbook\_processor.cpp)\<close>

text \<open>
  The processor's members \<^verbatim>\<open>historyWindowSize_\<close>, \<^verbatim>\<open>orderbookHistory_\<close>,
  \<^verbatim>\<open>latestStats_\<close> and the two counters, named without the trailing underscore.
\<close>

record OrderbookProcessor =
  historyWindowSize :: nat
  orderbookHistory :: "OrderbookData list"
  latestStats :: OrderbookStats
  totalProcessingTime :: nat
  processedUpdates :: nat

text \<open>The constructor; the header gives \<open>historyWindowSize\<close> the default 100.\<close>

definition OrderbookProcessor_new :: "nat \<Rightarrow> OrderbookProcessor" where
  "OrderbookProcessor_new windowSize =
     \<lparr>historyWindowSize = windowSize, orderbookHistory = [],
      latestStats = OrderbookStats_default, totalProcessingTime = 0, processedUpdates = 0\<rparr>"


text \<open>The loop of \<open>calculateVWAP\<close> over the first \<open>levelsToUse\<close> levels.\<close>

fun vwapLoop :: "PriceLevels \<Rightarrow> real \<times> real \<Rightarrow> real \<times> real" where
  "vwapLoop [] acc = acc"
| "vwapLoop ((price, volume) # rest) (priceSum, volumeSum) =
     vwapLoop rest (priceSum + price * volume, volumeSum + volume)"

definition levelsToUse :: "PriceLevels \<Rightarrow> nat \<Rightarrow> nat" where
  "levelsToUse priceLevels maxLevels =
     (if maxLevels > 0 then min maxLevels (length priceLevels) else length priceLevels)"

definition calculateVWAP :: "PriceLevels \<Rightarrow> nat \<Rightarrow> real" where
  "calculateVWAP priceLevels maxLevels =
     (if priceLevels = [] then 0
      else let (priceSum, volumeSum) =
                 vwapLoop (take (levelsToUse priceLevels maxLevels) priceLevels) (0, 0)
           in if volumeSum > 0 then priceSum / volumeSum else 0)"

text \<open>The mid-prices of the snapshots of the history that have both sides.\<close>

fun extractMidprices :: "OrderbookData list \<Rightarrow> real list" where
  "extractMidprices [] = []"
| "extractMidprices (orderbook # rest) =
     (if asks orderbook \<noteq> [] \<and> bids orderbook \<noteq> []
      then (fst (hd (asks orderbook)) + fst (hd (bids orderbook))) / 2 # extractMidprices rest
      else extractMidprices rest)"

text \<open>
  \<^verbatim>\<open>ret = (midprices[i] - midprices[i-1]) / midprices[i-1]\<close> for \<open>i\<close> from 1: the divisor
  is not checked.
\<close>

fun calculateReturns :: "real list \<Rightarrow> dbl list" where
  "calculateReturns (prev # cur # rest) =
     ddiv (Fin (cur - prev)) (Fin prev) # calculateReturns (cur # rest)"
| "calculateReturns [prev] = []"
| "calculateReturns [] = []"

definition calculateVolatility :: "OrderbookData list \<Rightarrow> dbl" where
  "calculateVolatility history =
     (if length history < 2 then Fin 0
      else let midprices = extractMidprices history
           in if length midprices < 2 then Fin 0
              else let returns = calculateReturns midprices;
                       mean = ddiv (foldl dadd (Fin 0) returns) (Fin (real (length returns)));
                       sqSum = foldl (\<lambda>sum x. let diff = dsub x mean in dadd sum (dmul diff diff))
                                 (Fin 0) returns;
                       variance = ddiv sqSum (Fin (real (length returns)))
                   in dsqrt variance)"

text \<open>
  \<open>calculateStats\<close>, which reads the history for the volatility. The statistics keep
  their defaults when a side of the snapshot is empty.
\<close>

definition calculateStats :: "OrderbookData list \<Rightarrow> OrderbookData \<Rightarrow> OrderbookStats" where
  "calculateStats history d =
     (if asks d = [] \<or> bids d = [] then OrderbookStats_default
      else let bestAsk = fst (hd (asks d));
               bestBid = fst (hd (bids d));
               totalAsk = foldl (\<lambda>sum level. sum + snd level) 0 (asks d);
               totalBid = foldl (\<lambda>sum level. sum + snd level) 0 (bids d)
           in \<lparr>midprice = (bestAsk + bestBid) / 2,
               spread = bestAsk - bestBid,
               best_ask = bestAsk,
               best_bid = bestBid,
               weighted_ask_price = calculateVWAP (asks d) 10,
               weighted_bid_price = calculateVWAP (bids d) 10,
               total_ask_size = totalAsk,
               total_bid_size = totalBid,
               order_imbalance = (if totalAsk > 0 then totalBid / totalAsk else 0),
               price_volatility = calculateVolatility history,
               processing_latency = 0\<rparr>)"

text \<open>\<^verbatim>\<open>while (orderbookHistory_.size() > historyWindowSize_) orderbookHistory_.pop_front();\<close>\<close>

fun popFrontWhileOver :: "nat \<Rightarrow> 'a list \<Rightarrow> 'a list" where
  "popFrontWhileOver w [] = []"
| "popFrontWhileOver w (x # xs) =
     (if length (x # xs) > w then popFrontWhileOver w xs else x # xs)"

definition updateHistory :: "OrderbookProcessor \<Rightarrow> OrderbookData \<Rightarrow> OrderbookProcessor" where
  "updateHistory p d =
     p\<lparr>orderbookHistory := popFrontWhileOver (historyWindowSize p) (orderbookHistory p @ [d])\<rparr>"

text \<open>
  \<open>processOrderbook\<close>, with the measured processing time (the difference of two readings
  of the steady clock, in microseconds) as an argument. The two counters are 64-bit
  unsigned atomics. The statistics callback is called with the value stored as
  \<open>latestStats\<close>.
\<close>

definition processOrderbook :: "OrderbookProcessor \<Rightarrow> OrderbookData \<Rightarrow> nat \<Rightarrow> OrderbookProcessor" where
  "processOrderbook p d processingTime =
     (let p1 = updateHistory p d;
          stats = calculateStats (orderbookHistory p1) d
      in p1\<lparr>totalProcessingTime := (totalProcessingTime p1 + processingTime) mod 2 ^ 64,
            processedUpdates := (processedUpdates p1 + 1) mod 2 ^ 64,
            latestStats := stats\<lparr>processing_latency := processingTime\<rparr>\<rparr>)"

text \<open>A sequence of \<open>processOrderbook\<close> calls, each with its snapshot and its measured time.\<close>

fun processAll :: "OrderbookProcessor \<Rightarrow> (OrderbookData \<times> nat) list \<Rightarrow> OrderbookProcessor" where
  "processAll p [] = p"
| "processAll p ((d, t) # calls) = processAll (processOrderbook p d t) calls"


section \<open>MarketImpactModel (market\_impact.h, market\_impact.cpp)\<close>

record AlmgrenChrissParams =
  permanentImpactFactor :: real
  temporaryImpactFactor :: real
  volatility :: real
  timeHorizon :: real
  riskAversion :: real

text \<open>The default member initialisers. A \<open>MarketImpactModel\<close> holds nothing but its parameters.\<close>

definition AlmgrenChrissParams_default :: AlmgrenChrissParams where
  "AlmgrenChrissParams_default =
     \<lparr>permanentImpactFactor = 0.1, temporaryImpactFactor = 0.1, volatility = 0,
      timeHorizon = 1, riskAversion = 1\<rparr>"

definition calculatePermanentImpact :: "AlmgrenChrissParams \<Rightarrow> real \<Rightarrow> OrderbookStats \<Rightarrow> dbl" where
  "calculatePermanentImpact params orderSize stats =
     (let marketDepth = total_ask_size stats + total_bid_size stats;
          scaledFactor = (if marketDepth > 0
                          then permanentImpactFactor params * (1 + min 1 (orderSize / marketDepth))
                          else permanentImpactFactor params);
          volatilityFactor = price_volatility stats
      in dmul (Fin (scaledFactor * orderSize)) volatilityFactor)"

definition calculateTemporaryImpact :: "AlmgrenChrissParams \<Rightarrow> real \<Rightarrow> OrderbookStats \<Rightarrow> dbl" where
  "calculateTemporaryImpact params orderSize stats =
     (let impactBase = pow_half orderSize;
          liquidityFactor = (if midprice stats > 0 \<and> spread stats > 0
                             then 1 * (1 + spread stats / midprice stats) else 1);
          imbalanceFactor = (if total_ask_size stats > 0 \<and> total_bid_size stats > 0
                             then std_max (Fin 1) (dabs (dlog (Fin (order_imbalance stats))))
                             else Fin 1)
      in dmul (dmul (dmul (dmul (Fin (temporaryImpactFactor params)) (price_volatility stats))
                          impactBase)
                    (Fin liquidityFactor))
              imbalanceFactor)"

definition calculateMarketImpact :: "AlmgrenChrissParams \<Rightarrow> real \<Rightarrow> bool \<Rightarrow> OrderbookStats \<Rightarrow> dbl" where
  "calculateMarketImpact params orderSize orderSide stats =
     (let sign = (if orderSide then 1 else - 1);
          permanentImpact = calculatePermanentImpact params orderSize stats;
          temporaryImpact = calculateTemporaryImpact params orderSize stats
      in dmul (dadd permanentImpact temporaryImpact) (Fin sign))"

text \<open>
  The inner loop of \<open>calculateOptimalExecution\<close>:
  \<^verbatim>\<open>totalWeight += std::exp(-riskFactor * static_cast<double>(j) / (numSteps - 1))\<close>.
\<close>

definition totalWeightLoop :: "dbl \<Rightarrow> int \<Rightarrow> dbl" where
  "totalWeightLoop riskFactor numSteps =
     foldl (\<lambda>totalWeight j.
              dadd totalWeight
                (dexp (ddiv (dmul (dneg riskFactor) (Fin (real j))) (Fin (real_of_int (numSteps - 1))))))
       (Fin 0) [0..<nat numSteps]"

text \<open>
  The outer loop over the steps \<open>i\<close>: it returns the trade sizes written to the schedule
  and the size that remains.
\<close>

fun executionLoop :: "dbl \<Rightarrow> int \<Rightarrow> real \<Rightarrow> nat list \<Rightarrow> dbl \<Rightarrow> dbl list \<times> dbl" where
  "executionLoop riskFactor numSteps effectiveSize [] remainingSize = ([], remainingSize)"
| "executionLoop riskFactor numSteps effectiveSize (i # steps) remainingSize =
     (let timeStep = ddiv (Fin (real i)) (Fin (real_of_int (numSteps - 1)));
          weight = dexp (dmul (dneg riskFactor) timeStep);
          totalWeight = totalWeightLoop riskFactor numSteps;
          tradeSize = std_min (dmul (ddiv weight totalWeight) (Fin effectiveSize)) remainingSize;
          (schedule, remaining) =
             executionLoop riskFactor numSteps effectiveSize steps (dsub remainingSize tradeSize)
      in (tradeSize # schedule, remaining))"

definition calculateOptimalExecution ::
  "AlmgrenChrissParams \<Rightarrow> real \<Rightarrow> bool \<Rightarrow> OrderbookStats \<Rightarrow> int \<Rightarrow> dbl list" where
  "calculateOptimalExecution params orderSize orderSide stats numSteps0 =
     (let numSteps = max 1 numSteps0
      in if orderSize \<le> 0 \<or> total_ask_size stats \<le> 0 \<or> total_bid_size stats \<le> 0
         then replicate (nat numSteps) (Fin 0)
         else let riskFactor =
                    ddiv (Fin (riskAversion params * (volatility params)\<^sup>2 * timeHorizon params))
                         (Fin (real_of_int (numSteps - 1)));
                  (schedule, remainingSize) =
                    executionLoop riskFactor numSteps orderSize [0..<nat numSteps] (Fin orderSize)
              in if dlt (Fin 0) remainingSize
                 then butlast schedule @ [dadd (last schedule) remainingSize]
                 else schedule)"


section \<open>TransactionCostModel (transaction\_cost.h, transaction\_cost.cpp)\<close>

record FeeModel =
  makerFeeRate :: real
  takerFeeRate :: real
  feeTier :: int

definition FeeModel_default :: FeeModel where
  "FeeModel_default = \<lparr>makerFeeRate = 0.0002, takerFeeRate = 0.0005, feeTier = 0\<rparr>"

text \<open>
  The model's own members. Its pointer to the market impact model is shared with the
  simulator, so the functions below that use the impact model take its parameters as an
  argument.
\<close>

record TransactionCostModel =
  feeModel :: FeeModel
  slippageIntercept :: real
  slippageVolumeFactor :: real
  slippageVolatilityFactor :: real
  slippageImbalanceFactor :: real

definition TransactionCostModel_new :: "FeeModel \<Rightarrow> TransactionCostModel" where
  "TransactionCostModel_new fm =
     \<lparr>feeModel = fm, slippageIntercept = 0, slippageVolumeFactor = 0.1,
      slippageVolatilityFactor = 0.2, slippageImbalanceFactor = - 0.05\<rparr>"

text \<open>The relative size that \<open>calculateSlippage\<close> and \<open>predictMakerProportion\<close> both compute.\<close>

definition relativeSizeToDepth :: "real \<Rightarrow> bool \<Rightarrow> OrderbookStats \<Rightarrow> real" where
  "relativeSizeToDepth orderSize orderSide stats =
     (if orderSide
      then (if total_ask_size stats > 0 then orderSize / total_ask_size stats else 0)
      else (if total_bid_size stats > 0 then orderSize / total_bid_size stats else 0))"

text \<open>
  Of the numbers these functions receive, the volatility of the statistics is the one
  that the program can make non-finite. \<open>calculateTotalCost\<close> passes the order size it
  was given and the mid-price to \<open>calculateFees\<close>, with the maker proportion that
  \<open>predictMakerProportion\<close> returns, which is NaN when the volatility is.
\<close>

definition calculateSlippage :: "TransactionCostModel \<Rightarrow> real \<Rightarrow> bool \<Rightarrow> OrderbookStats \<Rightarrow> dbl" where
  "calculateSlippage m orderSize orderSide stats =
     (let slippageEstimate =
            dadd (dadd (Fin (slippageIntercept m
                             + slippageVolumeFactor m * relativeSizeToDepth orderSize orderSide stats))
                       (dmul (Fin (slippageVolatilityFactor m)) (price_volatility stats)))
                 (Fin (slippageImbalanceFactor m * (order_imbalance stats - 1)));
          priceSlippage = dmul slippageEstimate (Fin (midprice stats));
          minSlippage = spread stats / 2
      in std_max priceSlippage (Fin minSlippage))"

definition calculateFees :: "TransactionCostModel \<Rightarrow> real \<Rightarrow> real \<Rightarrow> dbl \<Rightarrow> dbl" where
  "calculateFees m orderSize orderPrice makerProportion0 =
     (let makerProportion = std_clamp makerProportion0 (Fin 0) (Fin 1);
          takerProportion = dsub (Fin 1) makerProportion;
          notionalValue = orderSize * orderPrice;
          makerFee = dmul (dmul (Fin notionalValue) makerProportion) (Fin (makerFeeRate (feeModel m)));
          takerFee = dmul (dmul (Fin notionalValue) takerProportion) (Fin (takerFeeRate (feeModel m)))
      in dadd makerFee takerFee)"

definition predictMakerProportion :: "real \<Rightarrow> bool \<Rightarrow> OrderbookStats \<Rightarrow> dbl" where
  "predictMakerProportion orderSize orderSide stats =
     std_clamp (dmul (Fin (exp (- 5 * relativeSizeToDepth orderSize orderSide stats)))
                     (dexp (dmul (Fin (- 2)) (price_volatility stats))))
       (Fin 0) (Fin 0.1)"

definition calculateTotalCost ::
  "TransactionCostModel \<Rightarrow> AlmgrenChrissParams \<Rightarrow> real \<Rightarrow> bool \<Rightarrow> OrderbookStats
     \<Rightarrow> dbl \<times> dbl \<times> dbl \<times> dbl" where
  "calculateTotalCost m impactParams orderSize orderSide stats =
     (let slippage = calculateSlippage m orderSize orderSide stats;
          marketImpact = calculateMarketImpact impactParams orderSize orderSide stats;
          makerProportion = predictMakerProportion orderSize orderSide stats;
          fees = calculateFees m orderSize (midprice stats) makerProportion;
          totalCost = dadd (dadd slippage marketImpact) fees
      in (slippage, marketImpact, fees, totalCost))"


section \<open>Simulator (simulator.h, simulator.cpp)\<close>

record SimulatorParams =
  exchange :: string
  symbol :: string
  orderType :: string
  quantity :: real
  volatility :: real
  feeTier :: int

record SimulatorOutput =
  expectedSlippage :: dbl
  expectedFees :: dbl
  expectedMarketImpact :: dbl
  netCost :: dbl
  makerProportion :: dbl
  internalLatency :: real
  midprice :: real
  spread :: real
  marketVolatility :: dbl

definition SimulatorParams_default :: SimulatorParams where
  "SimulatorParams_default =
     \<lparr>exchange = ''OKX'', symbol = ''BTC-USDT'', orderType = ''market'', quantity = 100,
      volatility = 0, feeTier = 0\<rparr>"

definition SimulatorOutput_default :: SimulatorOutput where
  "SimulatorOutput_default =
     \<lparr>expectedSlippage = Fin 0, expectedFees = Fin 0, expectedMarketImpact = Fin 0,
      netCost = Fin 0, makerProportion = Fin 0, internalLatency = 0, midprice = 0, spread = 0,
      marketVolatility = Fin 0\<rparr>"

text \<open>
  The simulator's members \<^verbatim>\<open>params_\<close>, \<^verbatim>\<open>latestOutput_\<close>, \<^verbatim>\<open>isRunning_\<close> and the two
  models, which \<open>initializeComponents\<close> always creates. The calls of the output callback
  are returned as the list of its arguments, in order.
\<close>

record Simulator =
  params :: SimulatorParams
  latestOutput :: SimulatorOutput
  isRunning :: bool
  marketImpactModel :: AlmgrenChrissParams
  transactionCostModel :: TransactionCostModel

definition Simulator_new :: Simulator where
  "Simulator_new =
     \<lparr>params = SimulatorParams_default, latestOutput = SimulatorOutput_default,
      isRunning = False, marketImpactModel = AlmgrenChrissParams_default,
      transactionCostModel = TransactionCostModel_new FeeModel_default\<rparr>"

definition updateParams :: "Simulator \<Rightarrow> SimulatorParams \<Rightarrow> Simulator" where
  "updateParams sim newParams =
     (let currentParams = (marketImpactModel sim)
                            \<lparr>AlmgrenChrissParams.volatility := SimulatorParams.volatility newParams\<rparr>;
          tier = SimulatorParams.feeTier newParams;
          currentFeeModel = (feeModel (transactionCostModel sim))\<lparr>FeeModel.feeTier := tier\<rparr>;
          currentFeeModel =
            (if tier = 0
               then currentFeeModel\<lparr>makerFeeRate := 0.0002, takerFeeRate := 0.0005\<rparr>
             else if tier = 1
               then currentFeeModel\<lparr>makerFeeRate := 0.00015, takerFeeRate := 0.0004\<rparr>
             else if tier = 2
               then currentFeeModel\<lparr>makerFeeRate := 0.0001, takerFeeRate := 0.0003\<rparr>
             else if tier \<ge> 3
               then currentFeeModel\<lparr>makerFeeRate := 0.00005, takerFeeRate := 0.0002\<rparr>
             else currentFeeModel)
      in sim\<lparr>params := newParams,
             marketImpactModel := currentParams,
             transactionCostModel := (transactionCostModel sim)\<lparr>feeModel := currentFeeModel\<rparr>\<rparr>)"

definition updateSimulation :: "Simulator \<Rightarrow> OrderbookStats \<Rightarrow> Simulator \<times> SimulatorOutput list" where
  "updateSimulation sim stats =
     (let output = SimulatorOutput_default
                     \<lparr>SimulatorOutput.midprice := OrderbookStats.midprice stats,
                      SimulatorOutput.spread := OrderbookStats.spread stats,
                      marketVolatility := price_volatility stats\<rparr>;
          baseQuantity = (if OrderbookStats.midprice stats > 0
                          then quantity (params sim) / OrderbookStats.midprice stats else 0);
          orderSide = True;
          (slippage, marketImpact, fees, totalCost) =
             calculateTotalCost (transactionCostModel sim) (marketImpactModel sim)
               baseQuantity orderSide stats;
          output = output\<lparr>expectedSlippage := slippage,
                          expectedMarketImpact := marketImpact,
                          expectedFees := fees,
                          netCost := totalCost,
                          makerProportion := predictMakerProportion baseQuantity orderSide stats\<rparr>
      in (sim\<lparr>latestOutput := output\<rparr>, [output]))"

text \<open>
  \<open>onOrderbookStats\<close>, with the measured latency (the difference of two readings of the
  high-resolution clock, in microseconds) as an argument.
\<close>

definition onOrderbookStats ::
  "Simulator \<Rightarrow> OrderbookStats \<Rightarrow> int \<Rightarrow> Simulator \<times> SimulatorOutput list" where
  "onOrderbookStats sim stats latency =
     (if \<not> isRunning sim then (sim, [])
      else let (sim1, calls) = updateSimulation sim stats
           in (sim1\<lparr>latestOutput := (latestOutput sim1)\<lparr>internalLatency := real_of_int latency\<rparr>\<rparr>,
               calls))"


section \<open>WebSocketClient (websocket\_client.h, websocket\_client.cpp)\<close>

text \<open>
  A JSON value as the JSON library holds it, and the library's operations that
  \<open>parseOrderbookData\<close> calls. The library's parser \<^verbatim>\<open>json::parse\<close> and the standard
  library's \<^verbatim>\<open>std::stod\<close> are arguments \<open>parse\<close> and \<open>stod\<close> of the functions below;
  \<open>None\<close> is their exception.
\<close>

datatype json =
    JNull
  | JBool bool
  | JNumber real
  | JString string
  | JArray "json list"
  | JObject "(string \<times> json) list"

datatype exn =
    JsonParseError
  | JsonTypeError
  | MissingRequiredFields
  | StodError

text \<open>\<^verbatim>\<open>data.contains(key)\<close>: false on anything but an object.\<close>

fun json_contains :: "json \<Rightarrow> string \<Rightarrow> bool" where
  "json_contains (JObject kvs) key = (map_of kvs key \<noteq> None)"
| "json_contains j key = False"

text \<open>
  \<^verbatim>\<open>data[key]\<close> on a non-const value: the member of an object (a null value when the key
  is absent, as on a null value), a type error otherwise.
\<close>

fun json_at_key :: "json \<Rightarrow> string \<Rightarrow> exn + json" where
  "json_at_key (JObject kvs) key = (case map_of kvs key of Some v \<Rightarrow> Inr v | None \<Rightarrow> Inr JNull)"
| "json_at_key JNull key = Inr JNull"
| "json_at_key j key = Inl JsonTypeError"

text \<open>
  \<^verbatim>\<open>level[i]\<close> on a const value: the element of an array, a type error otherwise. The
  parser reads the indices 0 and 1 of values of size at least 2 only, so the index is
  always inside an array.
\<close>

fun json_at_index :: "json \<Rightarrow> nat \<Rightarrow> exn + json" where
  "json_at_index (JArray xs) i = (if i < length xs then Inr (xs ! i) else Inl JsonTypeError)"
| "json_at_index j i = Inl JsonTypeError"

text \<open>\<^verbatim>\<open>.get<std::string>()\<close>: a type error on anything but a string.\<close>

fun json_get_string :: "json \<Rightarrow> exn + string" where
  "json_get_string (JString s) = Inr s"
| "json_get_string j = Inl JsonTypeError"

text \<open>\<^verbatim>\<open>.size()\<close>: 0 for null, the number of elements of an array or object, 1 otherwise.\<close>

fun json_size :: "json \<Rightarrow> nat" where
  "json_size JNull = 0"
| "json_size (JArray xs) = length xs"
| "json_size (JObject kvs) = length kvs"
| "json_size j = 1"

text \<open>
  The values a range-based \<^verbatim>\<open>for\<close> visits: the elements of an array, the members'
  values of an object, nothing for null, the value itself otherwise.
\<close>

fun json_items :: "json \<Rightarrow> json list" where
  "json_items JNull = []"
| "json_items (JArray xs) = xs"
| "json_items (JObject kvs) = map snd kvs"
| "json_items j = [j]"

text \<open>
  \<^verbatim>\<open>std::stod\<close> on decimal notation, after the C++ standard: it skips leading white
  space, reads an optional sign, the longest run of digits with at most one decimal point
  and at least one digit, and an exponent if one is complete, and ignores whatever
  follows; it throws when no digit is found. \<open>scanDecimal\<close> returns the value with the
  characters left unread. The hexadecimal notation and the words for infinity and NaN,
  which \<^verbatim>\<open>std::stod\<close> converts too, and its range error are left out.
\<close>

definition isSpace :: "char \<Rightarrow> bool" where
  "isSpace c = (c = CHR '' '' \<or> (9 \<le> (of_char c :: nat) \<and> (of_char c :: nat) \<le> 13))"

definition isDigit :: "char \<Rightarrow> bool" where
  "isDigit c = (48 \<le> (of_char c :: nat) \<and> (of_char c :: nat) \<le> 57)"

definition digitsValue :: "string \<Rightarrow> nat" where
  "digitsValue ds = foldl (\<lambda>n c. 10 * n + (of_char c - 48)) 0 ds"

fun splitSign :: "string \<Rightarrow> bool \<times> string" where
  "splitSign [] = (False, [])"
| "splitSign (c # cs) =
     (if c = CHR ''-'' then (True, cs) else if c = CHR ''+'' then (False, cs) else (False, c # cs))"

fun scanFraction :: "string \<Rightarrow> string \<times> string" where
  "scanFraction [] = ([], [])"
| "scanFraction (c # cs) =
     (if c = CHR ''.'' then (takeWhile isDigit cs, dropWhile isDigit cs) else ([], c # cs))"

fun scanExponent :: "string \<Rightarrow> int \<times> string" where
  "scanExponent [] = (0, [])"
| "scanExponent (c # cs) =
     (if c = CHR ''e'' \<or> c = CHR ''E''
      then (let (negative, ds) = splitSign cs
            in if takeWhile isDigit ds = [] then (0, c # cs)
               else ((if negative then - int (digitsValue (takeWhile isDigit ds))
                      else int (digitsValue (takeWhile isDigit ds))),
                     dropWhile isDigit ds))
      else (0, c # cs))"

definition scanDecimal :: "string \<Rightarrow> (real \<times> string) option" where
  "scanDecimal str =
     (let (negative, s1) = splitSign str;
          intDigits = takeWhile isDigit s1;
          (fracDigits, s2) = scanFraction (dropWhile isDigit s1)
      in if intDigits = [] \<and> fracDigits = [] then None
         else let mantissa = real (digitsValue (intDigits @ fracDigits)) / 10 ^ length fracDigits;
                  (exponent, rest) = scanExponent s2;
                  magnitude = (if exponent < 0 then mantissa / 10 ^ nat (- exponent)
                               else mantissa * 10 ^ nat exponent)
              in Some (if negative then - magnitude else magnitude, rest))"

definition std_stod :: "string \<Rightarrow> real option" where
  "std_stod str = map_option fst (scanDecimal (dropWhile isSpace str))"

text \<open>\<^verbatim>\<open>std::stod(level[i].get<std::string>())\<close>\<close>

definition parseNumber :: "(string \<Rightarrow> real option) \<Rightarrow> json \<Rightarrow> nat \<Rightarrow> exn + real" where
  "parseNumber stod level i =
     (case json_at_index level i of
        Inl e \<Rightarrow> Inl e
      | Inr v \<Rightarrow> (case json_get_string v of
                    Inl e \<Rightarrow> Inl e
                  | Inr str \<Rightarrow> (case stod str of None \<Rightarrow> Inl StodError | Some x \<Rightarrow> Inr x)))"

text \<open>The loop over the asks (or the bids): entries with fewer than two elements are skipped.\<close>

fun parseLevels :: "(string \<Rightarrow> real option) \<Rightarrow> json list \<Rightarrow> exn + PriceLevels" where
  "parseLevels stod [] = Inr []"
| "parseLevels stod (level # rest) =
     (if json_size level \<ge> 2
      then (case parseNumber stod level 0 of
              Inl e \<Rightarrow> Inl e
            | Inr price \<Rightarrow>
                (case parseNumber stod level 1 of
                   Inl e \<Rightarrow> Inl e
                 | Inr amount \<Rightarrow>
                     (case parseLevels stod rest of
                        Inl e \<Rightarrow> Inl e
                      | Inr levels \<Rightarrow> Inr ((price, amount) # levels))))
      else parseLevels stod rest)"

text \<open>The five \<^verbatim>\<open>contains\<close> checks.\<close>

definition hasRequiredFields :: "json \<Rightarrow> bool" where
  "hasRequiredFields data =
     (json_contains data ''timestamp'' \<and> json_contains data ''exchange''
      \<and> json_contains data ''symbol'' \<and> json_contains data ''asks''
      \<and> json_contains data ''bids'')"

text \<open>\<^verbatim>\<open>data[key].get<std::string>()\<close> and the values of \<^verbatim>\<open>for (... : data[key])\<close>\<close>

definition getStringField :: "json \<Rightarrow> string \<Rightarrow> exn + string" where
  "getStringField data key =
     (case json_at_key data key of Inl e \<Rightarrow> Inl e | Inr v \<Rightarrow> json_get_string v)"

definition getLevelsField :: "(string \<Rightarrow> real option) \<Rightarrow> json \<Rightarrow> string \<Rightarrow> exn + PriceLevels" where
  "getLevelsField stod data key =
     (case json_at_key data key of Inl e \<Rightarrow> Inl e | Inr v \<Rightarrow> parseLevels stod (json_items v))"

text \<open>\<open>parseOrderbookData\<close>, with the reading of the steady clock as the argument \<open>startTime\<close>.\<close>

definition parseOrderbookData ::
  "(string \<Rightarrow> json option) \<Rightarrow> (string \<Rightarrow> real option) \<Rightarrow> nat \<Rightarrow> string \<Rightarrow> exn + OrderbookData" where
  "parseOrderbookData parse stod startTime jsonMessage =
     (case parse jsonMessage of
        None \<Rightarrow> Inl JsonParseError
      | Some data \<Rightarrow>
          if \<not> hasRequiredFields data then Inl MissingRequiredFields
          else (case getStringField data ''timestamp'' of Inl e \<Rightarrow> Inl e | Inr ts \<Rightarrow>
               (case getStringField data ''exchange'' of Inl e \<Rightarrow> Inl e | Inr ex \<Rightarrow>
               (case getStringField data ''symbol'' of Inl e \<Rightarrow> Inl e | Inr sy \<Rightarrow>
               (case getLevelsField stod data ''asks'' of Inl e \<Rightarrow> Inl e | Inr as \<Rightarrow>
               (case getLevelsField stod data ''bids'' of Inl e \<Rightarrow> Inl e | Inr bs \<Rightarrow>
                  Inr \<lparr>timestamp = ts, OrderbookData.exchange = ex, OrderbookData.symbol = sy,
                       asks = as, bids = bs, received_time = startTime\<rparr>))))))"

text \<open>
  What the network thread does that can be observed: calls of the order-book callback,
  errors written to \<^verbatim>\<open>std::cerr\<close> by \<open>processMessage\<close>, and sleeps of \<open>reconnect\<close>.
\<close>

datatype io_event =
    Callback OrderbookData
  | ErrorReported exn
  | Slept int

definition processMessage ::
  "(string \<Rightarrow> json option) \<Rightarrow> (string \<Rightarrow> real option) \<Rightarrow> nat \<Rightarrow> string \<Rightarrow> io_event list" where
  "processMessage parse stod now message =
     (case parseOrderbookData parse stod now message of
        Inr orderbookData \<Rightarrow> [Callback orderbookData]
      | Inl e \<Rightarrow> [ErrorReported e])"

record WebSocketClient =
  shouldRun :: bool
  isConnected :: bool
  reconnectDelayMs :: int

definition kReconnectInitialDelayMs :: int where
  "kReconnectInitialDelayMs = 1000"

definition kReconnectMaxDelayMs :: int where
  "kReconnectMaxDelayMs = 60000"

definition WebSocketClient_new :: WebSocketClient where
  "WebSocketClient_new =
     \<lparr>shouldRun = False, isConnected = False, reconnectDelayMs = kReconnectInitialDelayMs\<rparr>"

text \<open>\<open>start\<close>; the thread it creates runs \<open>runIoService\<close> below.\<close>

definition start :: "WebSocketClient \<Rightarrow> WebSocketClient" where
  "start ws =
     (if shouldRun ws then ws
      else ws\<lparr>shouldRun := True, reconnectDelayMs := kReconnectInitialDelayMs\<rparr>)"

definition stop :: "WebSocketClient \<Rightarrow> WebSocketClient" where
  "stop ws = (if \<not> shouldRun ws then ws else ws\<lparr>shouldRun := False, isConnected := False\<rparr>)"

definition reconnect :: "WebSocketClient \<Rightarrow> WebSocketClient \<times> io_event list" where
  "reconnect ws =
     (ws\<lparr>isConnected := False,
         reconnectDelayMs := min (reconnectDelayMs ws * 2) kReconnectMaxDelayMs\<rparr>,
      [Slept (reconnectDelayMs ws)])"

text \<open>
  The read loop of \<open>connect\<close> over the messages that arrive (each with the clock reading
  at its receipt) before the read fails.
\<close>

fun readLoop ::
  "(string \<Rightarrow> json option) \<Rightarrow> (string \<Rightarrow> real option) \<Rightarrow> (string \<times> nat) list \<Rightarrow> io_event list" where
  "readLoop parse stod [] = []"
| "readLoop parse stod ((message, now) # rest) =
     processMessage parse stod now message @ readLoop parse stod rest"

text \<open>
  One connection attempt, as the network delivers it: the handshake fails, or the
  connection is established and delivers messages until a read fails.
\<close>

datatype session =
    HandshakeFailed
  | Established "(string \<times> nat) list"

fun connect ::
  "(string \<Rightarrow> json option) \<Rightarrow> (string \<Rightarrow> real option) \<Rightarrow> WebSocketClient \<Rightarrow> session
     \<Rightarrow> WebSocketClient \<times> io_event list" where
  "connect parse stod ws HandshakeFailed = (ws\<lparr>isConnected := False\<rparr>, [])"
| "connect parse stod ws (Established messages) =
     (ws\<lparr>isConnected := False\<rparr>, readLoop parse stod messages)"

text \<open>
  \<open>runIoService\<close> over the connection attempts made while \<open>shouldRun\<close> stays set: each
  is followed by \<open>reconnect\<close>.
\<close>

fun runIoService ::
  "(string \<Rightarrow> json option) \<Rightarrow> (string \<Rightarrow> real option) \<Rightarrow> WebSocketClient \<Rightarrow> session list
     \<Rightarrow> WebSocketClient \<times> io_event list" where
  "runIoService parse stod ws [] = (ws, [])"
| "runIoService parse stod ws (s # rest) =
     (if \<not> shouldRun ws then (ws, [])
      else let (ws1, events1) = connect parse stod ws s;
               (ws2, events2) = reconnect ws1;
               (ws3, events3) = runIoService parse stod ws2 rest
           in (ws3, events1 @ events2 @ events3))"

text \<open>The delays slept, and the snapshots delivered, in a list of events.\<close>

fun sleptDelays :: "io_event list \<Rightarrow> int list" where
  "sleptDelays [] = []"
| "sleptDelays (Slept d # es) = d # sleptDelays es"
| "sleptDelays (e # es) = sleptDelays es"

fun delivered :: "io_event list \<Rightarrow> OrderbookData list" where
  "delivered [] = []"
| "delivered (Callback d # es) = d # delivered es"
| "delivered (e # es) = delivered es"


section \<open>Notions used to state the properties\<close>

text \<open>The levels \<open>calculateVWAP\<close> is said to use: the first \<open>K\<close>, or all if there are fewer.\<close>

definition usedLevels :: "PriceLevels \<Rightarrow> nat \<Rightarrow> PriceLevels" where
  "usedLevels priceLevels K = take K priceLevels"

text \<open>
  The volume-weighted average price of a list of levels as the specification words it:
  the sum of price times size over the sum of the sizes, and 0 if the total size is 0.
\<close>

definition vwapFormula :: "PriceLevels \<Rightarrow> real" where
  "vwapFormula levels =
     (if sum_list (map snd levels) = 0 then 0
      else sum_list (map (\<lambda>(price, volume). price * volume) levels) / sum_list (map snd levels))"

definition meanPrice :: "PriceLevels \<Rightarrow> real" where
  "meanPrice levels = sum_list (map fst levels) / real (length levels)"

text \<open>
  The statistics of the specification's end-to-end scenario: best bid 95445.4 with size
  1104.23, best ask 95445.5 with size 9.06.
\<close>

definition exampleStats :: OrderbookStats where
  "exampleStats =
     \<lparr>OrderbookStats.midprice = 95445.45, OrderbookStats.spread = 0.1,
      best_ask = 95445.5, best_bid = 95445.4,
      weighted_ask_price = 95445.5, weighted_bid_price = 95445.4,
      total_ask_size = 9.06, total_bid_size = 1104.23,
      order_imbalance = 1104.23 / 9.06, price_volatility = Fin 0, processing_latency = 0\<rparr>"


text \<open>
  The volatility, as the specification words it: the mid-price series of the snapshots
  with both sides, its simple returns, and the standard deviation of a list of numbers,
  with the divisor \<open>n\<close> (population) and with the divisor \<open>n - 1\<close> (sample; 0 when
  there are fewer than two numbers).
\<close>

definition validBook :: "OrderbookData \<Rightarrow> bool" where
  "validBook orderbook = (asks orderbook \<noteq> [] \<and> bids orderbook \<noteq> [])"

definition midpriceOf :: "OrderbookData \<Rightarrow> real" where
  "midpriceOf orderbook = (fst (hd (asks orderbook)) + fst (hd (bids orderbook))) / 2"

definition validMidprices :: "OrderbookData list \<Rightarrow> real list" where
  "validMidprices history = map midpriceOf (filter validBook history)"

fun simpleReturns :: "real list \<Rightarrow> real list" where
  "simpleReturns (prev # cur # rest) = (cur - prev) / prev # simpleReturns (cur # rest)"
| "simpleReturns [prev] = []"
| "simpleReturns [] = []"

definition mean :: "real list \<Rightarrow> real" where
  "mean xs = sum_list xs / real (length xs)"

definition sumSquaredDeviations :: "real list \<Rightarrow> real" where
  "sumSquaredDeviations xs = sum_list (map (\<lambda>x. (x - mean xs)\<^sup>2) xs)"

definition populationStdDev :: "real list \<Rightarrow> real" where
  "populationStdDev xs =
     (if xs = [] then 0 else sqrt (sumSquaredDeviations xs / real (length xs)))"

definition sampleStdDev :: "real list \<Rightarrow> real" where
  "sampleStdDev xs =
     (if length xs < 2 then 0 else sqrt (sumSquaredDeviations xs / (real (length xs) - 1)))"

text \<open>A snapshot with the given asks and bids, and a history of four such snapshots.\<close>

definition snapshot :: "PriceLevels \<Rightarrow> PriceLevels \<Rightarrow> OrderbookData" where
  "snapshot as bs =
     \<lparr>timestamp = ''2025-05-04T10:39:13Z'', OrderbookData.exchange = ''OKX'',
      OrderbookData.symbol = ''BTC-USDT-SWAP'', asks = as, bids = bs, received_time = 0\<rparr>"

definition exampleHistory :: "OrderbookData list" where
  "exampleHistory =
     [snapshot [(3, 1)] [(1, 1)], snapshot [] [(2, 1)], snapshot [(5, 1)] [(3, 1)],
      snapshot [(5, 1)] [(3, 1)]]"




text \<open>The \<open>k\<close>-th backoff delay of the specification, \<open>k\<close> counted from 1, in milliseconds.\<close>

definition backoffDelay :: "nat \<Rightarrow> int" where
  "backoffDelay k = min (1000 * 2 ^ (k - 1)) 60000"

text \<open>The delays that \<open>reconnect\<close> sleeps in \<open>n\<close> consecutive calls, from the delay \<open>d\<close>.\<close>

fun backoffFrom :: "int \<Rightarrow> nat \<Rightarrow> int list" where
  "backoffFrom d 0 = []"
| "backoffFrom d (Suc n) = d # backoffFrom (min (d * 2) kReconnectMaxDelayMs) n"

text \<open>
  A numeric string is well formed when it is a decimal numeral from its first character
  to its last, and malformed otherwise.
\<close>

definition decimalNumeral :: "string \<Rightarrow> bool" where
  "decimalNumeral str = (case scanDecimal str of None \<Rightarrow> False | Some (v, rest) \<Rightarrow> rest = [])"

definition malformedNumericString :: "string \<Rightarrow> bool" where
  "malformedNumericString str = (\<not> decimalNumeral str)"

text \<open>
  The messages the parser does reject. A parsed message is missing a required field; a
  level of its asks or bids that the parser converts (an array of at least two elements)
  has a price or a size that is a string on which \<^verbatim>\<open>std::stod\<close> throws; a message
  text is rejected when it is no JSON, or one of the two.
\<close>

definition requiredFields :: "string list" where
  "requiredFields = [''timestamp'', ''exchange'', ''symbol'', ''asks'', ''bids'']"

definition missingRequiredField :: "json \<Rightarrow> bool" where
  "missingRequiredField data = list_ex (\<lambda>key. \<not> json_contains data key) requiredFields"

fun unconvertibleNumber :: "(string \<Rightarrow> real option) \<Rightarrow> json \<Rightarrow> bool" where
  "unconvertibleNumber stod (JString str) = (stod str = None)"
| "unconvertibleNumber stod j = False"

fun unconvertibleLevel :: "(string \<Rightarrow> real option) \<Rightarrow> json \<Rightarrow> bool" where
  "unconvertibleLevel stod (JArray (price # amount # others)) =
     (unconvertibleNumber stod price \<or> unconvertibleNumber stod amount)"
| "unconvertibleLevel stod j = False"

definition levelsOf :: "json \<Rightarrow> string \<Rightarrow> json list" where
  "levelsOf data key = (case json_at_key data key of Inr v \<Rightarrow> json_items v | Inl e \<Rightarrow> [])"

definition containsUnconvertibleNumber :: "(string \<Rightarrow> real option) \<Rightarrow> json \<Rightarrow> bool" where
  "containsUnconvertibleNumber stod data =
     (list_ex (unconvertibleLevel stod) (levelsOf data ''asks'')
      \<or> list_ex (unconvertibleLevel stod) (levelsOf data ''bids''))"

definition rejected :: "(string \<Rightarrow> json option) \<Rightarrow> (string \<Rightarrow> real option) \<Rightarrow> string \<Rightarrow> bool" where
  "rejected parse stod message =
     (case parse message of
        None \<Rightarrow> True
      | Some data \<Rightarrow> missingRequiredField data \<or> containsUnconvertibleNumber stod data)"


text \<open>
  A stand-in for the two library functions, defined at the strings of the examples: five
  message texts with the JSON values they denote, and the numerals of the specification's
  end-to-end scenario.
\<close>

definition exampleStod :: "string \<Rightarrow> real option" where
  "exampleStod str =
     (if str = ''95445.5'' then Some 95445.5
      else if str = ''9.06'' then Some 9.06
      else if str = ''95445.4'' then Some 95445.4
      else if str = ''1104.23'' then Some 1104.23
      else None)"

definition exampleHeader :: "(string \<times> json) list" where
  "exampleHeader =
     [(''timestamp'', JString ''2025-05-04T10:39:13Z''), (''exchange'', JString ''OKX''),
      (''symbol'', JString ''BTC-USDT-SWAP'')]"

definition exampleParse :: "string \<Rightarrow> json option" where
  "exampleParse text =
     (if text = ''good''
        then Some (JObject (exampleHeader @
               [(''asks'', JArray [JArray [JString ''95445.5'', JString ''9.06'']]),
                (''bids'', JArray [JArray [JString ''95445.4'', JString ''1104.23'']])]))
      else if text = ''no-bids''
        then Some (JObject (exampleHeader @
               [(''asks'', JArray [JArray [JString ''95445.5'', JString ''9.06'']])]))
      else if text = ''bad-price''
        then Some (JObject (exampleHeader @
               [(''asks'', JArray [JArray [JString ''abc'', JString ''9.06'']]),
                (''bids'', JArray [JArray [JString ''95445.4'', JString ''1104.23'']])]))
      else if text = ''prefix-price''
        then Some (JObject (exampleHeader @
               [(''asks'', JArray [JArray [JString ''12abc'', JString ''9.06'']]),
                (''bids'', JArray [JArray [JString ''95445.4'', JString ''1104.23'']])]))
      else if text = ''short-level''
        then Some (JObject (exampleHeader @
               [(''asks'', JArray [JArray [JString ''abc'']]),
                (''bids'', JArray [JArray [JString ''95445.4'', JString ''1104.23'']])]))
      else None)"


text \<open>
  Eight connection attempts: some fail at the handshake, some deliver messages before the
  connection is lost.
\<close>

definition exampleSessions :: "session list" where
  "exampleSessions =
     [HandshakeFailed, Established [(''good'', 10), (''bad-price'', 20)], HandshakeFailed,
      HandshakeFailed, Established [], HandshakeFailed, HandshakeFailed, HandshakeFailed]"


section \<open>The history window\<close>

lemma popFrontWhileOver_drop: "popFrontWhileOver w xs = drop (length xs - w) xs"
  by (induction xs) (auto simp: Suc_diff_le)

lemma historyWindowSize_processOrderbook [simp]:
  "historyWindowSize (processOrderbook p d t) = historyWindowSize p"
  by (simp add: processOrderbook_def updateHistory_def Let_def)

lemma orderbookHistory_processOrderbook:
  "orderbookHistory (processOrderbook p d t) =
     drop (length (orderbookHistory p) + 1 - historyWindowSize p) (orderbookHistory p @ [d])"
  by (simp add: processOrderbook_def updateHistory_def Let_def popFrontWhileOver_drop)

lemma drop_drop_append:
  "k \<le> length xs \<Longrightarrow> drop j (drop k xs @ ys) = drop (j + k) (xs @ ys)"
  by simp

text \<open>
  From any state of the processor, a non-empty sequence of calls leaves the last
  \<open>historyWindowSize\<close> snapshots of the old history followed by the new ones.
\<close>

lemma orderbookHistory_processAll:
  "orderbookHistory (processAll p calls) =
     (if calls = [] then orderbookHistory p
      else drop (length (orderbookHistory p) + length calls - historyWindowSize p)
             (orderbookHistory p @ map fst calls))"
proof (induction calls arbitrary: p)
  case Nil
  show ?case by simp
next
  case (Cons c calls)
  obtain d t where c: "c = (d, t)" by (cases c)
  let ?h = "orderbookHistory p" and ?w = "historyWindowSize p"
  let ?k = "length ?h + 1 - ?w"
  have k: "?k \<le> length (?h @ [d])" by simp
  show ?case
  proof (cases "calls = []")
    case True
    then show ?thesis by (simp add: c orderbookHistory_processOrderbook)
  next
    case False
    have "orderbookHistory (processAll p (c # calls)) =
            drop (length (drop ?k (?h @ [d])) + length calls - ?w)
              (drop ?k (?h @ [d]) @ map fst calls)"
      using False by (simp add: c Cons.IH orderbookHistory_processOrderbook)
    also have "\<dots> = drop (length (drop ?k (?h @ [d])) + length calls - ?w + ?k)
              ((?h @ [d]) @ map fst calls)"
      using k by (rule drop_drop_append)
    also have "length (drop ?k (?h @ [d])) + length calls - ?w + ?k
                 = length ?h + length (c # calls) - ?w"
      by (simp; arith)
    finally show ?thesis by (simp add: c)
  qed
qed

text \<open>
  Claim C4. A processor constructed with window size \<open>N\<close> that has processed the snapshots
  of \<open>calls\<close>, in this order, retains exactly the last \<open>min (length calls) N\<close> of them, in
  processing order; in particular its history is never longer than \<open>N\<close>.
\<close>

theorem history_window_fifo:
  "orderbookHistory (processAll (OrderbookProcessor_new N) calls)
     = drop (length calls - min (length calls) N) (map fst calls)
   \<and> length (orderbookHistory (processAll (OrderbookProcessor_new N) calls))
       = min (length calls) N
   \<and> length (orderbookHistory (processAll (OrderbookProcessor_new N) calls)) \<le> N"
proof -
  have h: "orderbookHistory (processAll (OrderbookProcessor_new N) calls)
             = drop (length calls - N) (map fst calls)"
    by (simp add: orderbookHistory_processAll OrderbookProcessor_new_def)
  have "length calls - min (length calls) N = length calls - N" by arith
  then show ?thesis unfolding h by (simp; arith)
qed


section \<open>The volume-weighted average price\<close>

lemma vwapLoop_sums:
  "vwapLoop levels (priceSum, volumeSum) =
     (priceSum + sum_list (map (\<lambda>(price, volume). price * volume) levels),
      volumeSum + sum_list (map snd levels))"
  by (induction levels arbitrary: priceSum volumeSum) (auto simp: algebra_simps)

lemma take_levelsToUse: "0 < K \<Longrightarrow> take (levelsToUse levels K) levels = take K levels"
  by (simp add: levelsToUse_def min_def)

lemma calculateVWAP_eq:
  "0 < K \<Longrightarrow> calculateVWAP levels K =
     (if 0 < sum_list (map snd (usedLevels levels K))
      then sum_list (map (\<lambda>(price, volume). price * volume) (usedLevels levels K))
           / sum_list (map snd (usedLevels levels K))
      else 0)"
  by (cases "levels = []")
     (simp_all add: calculateVWAP_def take_levelsToUse vwapLoop_sums usedLevels_def)

lemma equal_sizes_sums:
  "\<forall>l \<in> set levels. snd l = s \<Longrightarrow>
     sum_list (map snd levels) = real (length levels) * s
     \<and> sum_list (map (\<lambda>(price, volume). price * volume) levels) = sum_list (map fst levels) * s"
  by (induction levels) (auto simp: algebra_simps)

lemma sizes_nonneg_sum:
  fixes levels :: PriceLevels
  shows "\<forall>l \<in> set levels. 0 \<le> snd l \<Longrightarrow> 0 \<le> sum_list (map snd levels)"
  by (rule sum_list_nonneg) auto

text \<open>
  Claim C8. For levels whose sizes are not negative, as the sizes of an order book are,
  \<open>calculateVWAP\<close> over the first \<open>K\<close> levels (\<open>calculateStats\<close> passes 10), or over all
  of them if there are fewer, is the sum of price times size over the sum of the sizes of
  those levels, and 0 when that total size is 0; it is 0 for an empty list; and when all
  the levels used have the same size, not 0, it is the arithmetic mean of their prices.
\<close>

theorem calculateVWAP_formula:
  assumes "0 < K" and "\<forall>l \<in> set (usedLevels levels K). 0 \<le> snd l"
  shows "calculateVWAP levels K = vwapFormula (usedLevels levels K)
       \<and> (sum_list (map snd (usedLevels levels K)) = 0 \<longrightarrow> calculateVWAP levels K = 0)
       \<and> (levels = [] \<longrightarrow> calculateVWAP levels K = 0)
       \<and> (levels \<noteq> [] \<and> s \<noteq> 0 \<and> (\<forall>l \<in> set (usedLevels levels K). snd l = s)
            \<longrightarrow> calculateVWAP levels K = meanPrice (usedLevels levels K))"
proof -
  let ?u = "usedLevels levels K"
  note eq = calculateVWAP_eq [OF assms(1), of levels]
  from sizes_nonneg_sum [OF assms(2)] have nn: "0 \<le> sum_list (map snd ?u)" .
  have a: "calculateVWAP levels K = vwapFormula ?u"
    using nn by (auto simp: eq vwapFormula_def)
  have b: "sum_list (map snd ?u) = 0 \<longrightarrow> calculateVWAP levels K = 0"
    by (simp add: eq)
  have c: "levels = [] \<longrightarrow> calculateVWAP levels K = 0"
    by (simp add: calculateVWAP_def)
  have d: "levels \<noteq> [] \<and> s \<noteq> 0 \<and> (\<forall>l \<in> set ?u. snd l = s)
             \<longrightarrow> calculateVWAP levels K = meanPrice ?u"
  proof (intro impI, elim conjE)
    assume ne: "levels \<noteq> []" and s: "s \<noteq> 0" and all: "\<forall>l \<in> set ?u. snd l = s"
    from ne assms(1) have len: "0 < length ?u" by (simp add: usedLevels_def)
    then obtain l where l: "l \<in> set ?u" by (cases ?u) auto
    from l all have "snd l = s" by simp
    moreover from l assms(2) have "0 \<le> snd l" by simp
    ultimately have sp: "0 < s" using s by simp
    from equal_sizes_sums [OF all]
    have sums: "sum_list (map snd ?u) = real (length ?u) * s"
      "sum_list (map (\<lambda>(price, volume). price * volume) ?u) = sum_list (map fst ?u) * s"
      by simp_all
    have "0 < real (length ?u) * s" using len sp by simp
    then show "calculateVWAP levels K = meanPrice ?u"
      using sp by (simp add: eq sums meanPrice_def)
  qed
  from a b c d show ?thesis by blast
qed

theorem calculateVWAP_formula_witness:
  "(0::nat) < 10
   \<and> list_all (\<lambda>l. 0 \<le> snd l) (usedLevels [(100, 2), (101, 2 :: real)] 10)
   \<and> calculateVWAP [(100, 2), (101, 2)] 10 = vwapFormula (usedLevels [(100, 2), (101, 2)] 10)
   \<and> [(100, 2), (101, 2)] \<noteq> ([] :: PriceLevels) \<and> (2::real) \<noteq> 0
   \<and> list_all (\<lambda>l. snd l = 2) (usedLevels [(100, 2), (101, 2 :: real)] 10)
   \<and> calculateVWAP [(100, 2), (101, 2)] 10 = meanPrice (usedLevels [(100, 2), (101, 2)] 10)
   \<and> meanPrice (usedLevels [(100, 2), (101, 2)] 10) = 201 / 2
   \<and> sum_list (map snd (usedLevels [(100, 0), (101, 0 :: real)] 10)) = 0
   \<and> calculateVWAP [(100, 0), (101, 0)] 10 = 0
   \<and> calculateVWAP [] 10 = 0"
  using calculateVWAP_formula [of 10 "[(100, 2), (101, 2)]" 2]
        calculateVWAP_formula [of 10 "[(100, 0), (101, 0)]" 1]
        calculateVWAP_formula [of 10 "[]" 1]
  by (simp add: usedLevels_def meanPrice_def)


section \<open>Arithmetic that stays finite\<close>

lemma dmul_NaN_right [simp]: "dmul a NaN = NaN"
  by (cases a) simp_all

lemma ddiv_NaN_right [simp]: "ddiv a NaN = NaN"
  by (cases a) simp_all

lemma dadd_NaN_right [simp]: "dadd a NaN = NaN"
  by (cases a) simp_all

lemma dlt_NaN_right [simp]: "dlt a NaN = False"
  by (cases a) simp_all


section \<open>The volatility\<close>

lemma extractMidprices_valid: "extractMidprices history = validMidprices history"
  by (induction history) (simp_all add: validMidprices_def validBook_def midpriceOf_def)

lemma calculateReturns_finite:
  "0 \<notin> set (butlast ms) \<Longrightarrow> calculateReturns ms = map Fin (simpleReturns ms)"
  by (induction ms rule: simpleReturns.induct) simp_all

lemma length_simpleReturns: "length (simpleReturns ms) = length ms - 1"
  by (induction ms rule: simpleReturns.induct) simp_all

lemma foldl_dadd_Fin: "foldl dadd (Fin a) (map Fin xs) = Fin (a + sum_list xs)"
  by (induction xs arbitrary: a) (simp_all add: add.assoc)

lemma foldl_sqSum_Fin:
  "foldl (\<lambda>sum x. dadd sum (dmul (dsub x (Fin m)) (dsub x (Fin m)))) (Fin a) (map Fin xs)
     = Fin (a + sum_list (map (\<lambda>x. (x - m)\<^sup>2) xs))"
  by (induction xs arbitrary: a) (simp_all add: dsub_def power2_eq_square add.assoc)

lemma sumSquaredDeviations_nonneg: "0 \<le> sumSquaredDeviations xs"
  unfolding sumSquaredDeviations_def by (rule sum_list_nonneg) auto

lemma stdDev_of_returns:
  assumes "rs \<noteq> []"
  shows "(let returns = map Fin rs;
              mean = ddiv (foldl dadd (Fin 0) returns) (Fin (real (length returns)));
              sqSum = foldl (\<lambda>sum x. let diff = dsub x mean in dadd sum (dmul diff diff))
                        (Fin 0) returns;
              variance = ddiv sqSum (Fin (real (length returns)))
          in dsqrt variance) = Fin (populationStdDev rs)"
proof -
  from assms have n: "real (length rs) \<noteq> 0" by simp
  have m: "ddiv (foldl dadd (Fin 0) (map Fin rs)) (Fin (real (length rs))) = Fin (mean rs)"
    using n by (simp add: foldl_dadd_Fin mean_def)
  have v: "ddiv (foldl (\<lambda>sum x. dadd sum (dmul (dsub x (Fin (mean rs))) (dsub x (Fin (mean rs)))))
                  (Fin 0) (map Fin rs)) (Fin (real (length rs)))
             = Fin (sumSquaredDeviations rs / real (length rs))"
    using n by (simp add: foldl_sqSum_Fin sumSquaredDeviations_def)
  have "\<not> sumSquaredDeviations rs / real (length rs) < 0"
    using sumSquaredDeviations_nonneg [of rs] by (simp add: not_less)
  then have "dsqrt (Fin (sumSquaredDeviations rs / real (length rs))) = Fin (populationStdDev rs)"
    using assms by (simp add: populationStdDev_def)
  then show ?thesis
    by (simp only: Let_def length_map m v)
qed

lemma calculateVolatility_population:
  assumes "0 \<notin> set (butlast (validMidprices history))"
  shows "calculateVolatility history = Fin (populationStdDev (simpleReturns (validMidprices history)))"
proof (cases "length (validMidprices history) < 2")
  case True
  then have "simpleReturns (validMidprices history) = []"
    using length_simpleReturns [of "validMidprices history"] by simp
  with True show ?thesis
    by (simp add: calculateVolatility_def extractMidprices_valid Let_def populationStdDev_def)
next
  case False
  have "length (validMidprices history) \<le> length history"
    by (simp add: validMidprices_def)
  with False have h: "\<not> length history < 2" by simp
  from False have ne: "simpleReturns (validMidprices history) \<noteq> []"
    using length_simpleReturns [of "validMidprices history"] by (auto simp flip: length_0_conv)
  show ?thesis
    using stdDev_of_returns [OF ne] False h
    by (simp add: calculateVolatility_def extractMidprices_valid Let_def
          calculateReturns_finite [OF assms])
qed

lemma populationStdDev_single: "populationStdDev [r] = 0"
  by (simp add: populationStdDev_def sumSquaredDeviations_def mean_def)

text \<open>
  Claim C3, as the code has it. When no mid-price that a return is divided by is zero,
  \<open>calculateVolatility\<close> is the population standard deviation (the divisor is the number of
  returns) of the simple returns of the mid-prices of the snapshots with both sides,
  the others being skipped; it is 0 when fewer than three snapshots have both sides.
\<close>

theorem calculateVolatility_amended:
  assumes "0 \<notin> set (butlast (validMidprices history))"
  shows "calculateVolatility history = Fin (populationStdDev (simpleReturns (validMidprices history)))
       \<and> (length (filter validBook history) < 3 \<longrightarrow> calculateVolatility history = Fin 0)"
proof -
  note eq = calculateVolatility_population [OF assms]
  have "calculateVolatility history = Fin 0" if "length (filter validBook history) < 3"
  proof -
    from that have "length (simpleReturns (validMidprices history)) < 2"
      by (simp add: length_simpleReturns validMidprices_def)
    then consider "simpleReturns (validMidprices history) = []"
      | r where "simpleReturns (validMidprices history) = [r]"
      by (cases "simpleReturns (validMidprices history)"; cases "tl (simpleReturns (validMidprices history))") auto
    then show ?thesis
      by cases (simp_all add: eq populationStdDev_single, simp add: populationStdDev_def)
  qed
  with eq show ?thesis by simp
qed

lemma validMidprices_exampleHistory: "validMidprices exampleHistory = [2, 4, 4]"
  by (simp add: exampleHistory_def validMidprices_def validBook_def midpriceOf_def snapshot_def)

theorem calculateVolatility_amended_witness:
  "0 \<notin> set (butlast (validMidprices exampleHistory))
   \<and> calculateVolatility exampleHistory = Fin (populationStdDev [1, 0])
   \<and> populationStdDev [1, 0] = sqrt (1 / 4)
   \<and> 0 \<notin> set (butlast (validMidprices (take 3 exampleHistory)))
   \<and> length (filter validBook (take 3 exampleHistory)) < 3
   \<and> calculateVolatility (take 3 exampleHistory) = Fin 0"
proof -
  have v: "validMidprices (take 3 exampleHistory) = [2, 4]"
    by (simp add: exampleHistory_def validMidprices_def validBook_def midpriceOf_def snapshot_def)
  have l: "length (filter validBook (take 3 exampleHistory)) < 3"
    by (simp add: exampleHistory_def validBook_def snapshot_def)
  from calculateVolatility_amended [of exampleHistory]
       calculateVolatility_amended [of "take 3 exampleHistory"] l
  show ?thesis
    by (simp add: validMidprices_exampleHistory v populationStdDev_def sumSquaredDeviations_def
          mean_def power2_eq_square)
qed

text \<open>
  Claim C3 as it is stated fails: for the mid-prices 2, 4, 4 the returns are 1 and 0, the
  code returns the square root of 1/4, and their sample standard deviation is the square
  root of 1/2.
\<close>

theorem calculateVolatility_counterexample:
  "calculateVolatility exampleHistory
     \<noteq> Fin (sampleStdDev (simpleReturns (validMidprices exampleHistory)))"
  by (simp add: calculateVolatility_population validMidprices_exampleHistory
        populationStdDev_def sampleStdDev_def sumSquaredDeviations_def mean_def power2_eq_square)


section \<open>The execution schedule\<close>

lemma executionLoop_single:
  "executionLoop riskFactor 1 effectiveSize [0] remainingSize = ([NaN], NaN)"
  by (simp add: std_min_def dsub_def)

text \<open>
  Claim C1 fails on the code for one step. \<open>calculateOptimalExecution\<close> raises the step
  count to at least 1 and then divides by the step count minus 1: with one step the time
  step is 0/0, the only slice is NaN, and the slices do not sum to the order size.
\<close>

theorem optimalExecution_single_step:
  assumes "0 < orderSize" "0 < total_ask_size stats" "0 < total_bid_size stats" "numSteps \<le> 1"
  shows "calculateOptimalExecution acp orderSize orderSide stats numSteps = [NaN]
       \<and> dsum (calculateOptimalExecution acp orderSize orderSide stats numSteps) \<noteq> Fin orderSize"
proof -
  from assms(4) have n: "max 1 numSteps = 1" by simp
  have "calculateOptimalExecution acp orderSize orderSide stats numSteps = [NaN]"
    using assms(1-3) unfolding calculateOptimalExecution_def n Let_def
    by (simp add: executionLoop_single del: executionLoop.simps)
  then show ?thesis by (simp add: dsum_def)
qed


theorem optimalExecution_single_step_witness:
  "(0::real) < 1 \<and> 0 < total_ask_size exampleStats \<and> 0 < total_bid_size exampleStats
   \<and> (1::int) \<le> 1
   \<and> calculateOptimalExecution AlmgrenChrissParams_default 1 True exampleStats 1 = [NaN]
   \<and> dsum (calculateOptimalExecution AlmgrenChrissParams_default 1 True exampleStats 1) \<noteq> Fin 1"
  using optimalExecution_single_step [of 1 exampleStats 1 AlmgrenChrissParams_default True]
  by (simp add: exampleStats_def dsum_def)

text \<open>
  With two or more steps every operation stays finite: the slices sum to the order size,
  the size that remains after the loop being added to the last slice.
\<close>

lemma sum_list_pos:
  fixes xs :: "real list"
  shows "xs \<noteq> [] \<Longrightarrow> \<forall>x \<in> set xs. 0 < x \<Longrightarrow> 0 < sum_list xs"
  by (induction xs) (auto intro: add_pos_nonneg sum_list_nonneg less_imp_le)

lemma totalWeightLoop_Fin:
  assumes "2 \<le> numSteps"
  shows "\<exists>W. totalWeightLoop (Fin rf) numSteps = Fin W \<and> 0 < W"
proof -
  let ?d = "real_of_int (numSteps - 1)"
  from assms have d: "?d \<noteq> 0" by simp
  let ?ws = "map (\<lambda>j. exp (- rf * real j / ?d)) [0..<nat numSteps]"
  have "totalWeightLoop (Fin rf) numSteps = foldl dadd (Fin 0) (map Fin ?ws)"
    unfolding totalWeightLoop_def using d
    by (simp add: foldl_map)
  then have "totalWeightLoop (Fin rf) numSteps = Fin (sum_list ?ws)"
    by (simp only: foldl_dadd_Fin add_0)
  moreover have "0 < sum_list ?ws"
  proof -
    from assms have "[0..<nat numSteps] \<noteq> []" by simp
    then have "?ws \<noteq> []" by simp
    moreover have "\<forall>w \<in> set ?ws. 0 < w" by auto
    ultimately show ?thesis by (rule sum_list_pos)
  qed
  ultimately show ?thesis by blast
qed

lemma executionLoop_Fin:
  assumes "2 \<le> numSteps"
  shows "\<exists>ts rem. executionLoop (Fin rf) numSteps effectiveSize steps (Fin r) = (map Fin ts, Fin rem)
           \<and> length ts = length steps \<and> sum_list ts + rem = r \<and> (0 \<le> r \<longrightarrow> 0 \<le> rem)"
proof (induction steps arbitrary: r)
  case Nil
  show ?case by simp
next
  case (Cons i steps)
  from totalWeightLoop_Fin [OF assms, of rf]
  obtain W where W: "totalWeightLoop (Fin rf) numSteps = Fin W" "0 < W" by blast
  from assms have d: "real_of_int (numSteps - 1) \<noteq> 0" by simp
  define t0 where "t0 = exp (- rf * (real i / real_of_int (numSteps - 1))) / W * effectiveSize"
  define t where "t = (if r < t0 then r else t0)"
  have trade: "std_min (dmul (ddiv (dexp (dmul (dneg (Fin rf))
                   (ddiv (Fin (real i)) (Fin (real_of_int (numSteps - 1))))))
                   (totalWeightLoop (Fin rf) numSteps)) (Fin effectiveSize)) (Fin r) = Fin t"
    using d W by (simp add: std_min_def t_def t0_def)
  from Cons.IH [of "r - t"] obtain ts rem where
    ih: "executionLoop (Fin rf) numSteps effectiveSize steps (Fin (r - t)) = (map Fin ts, Fin rem)"
      "length ts = length steps" "sum_list ts + rem = r - t" "0 \<le> r - t \<longrightarrow> 0 \<le> rem"
    by blast
  have tr: "t \<le> r" by (simp add: t_def)
  have sub: "dsub (Fin r) (Fin t) = Fin (r - t)" by (simp add: dsub_def)
  have "executionLoop (Fin rf) numSteps effectiveSize (i # steps) (Fin r) = (map Fin (t # ts), Fin rem)"
    by (simp only: executionLoop.simps Let_def trade sub ih(1) prod.case list.map)
  moreover have "length (t # ts) = length (i # steps)" using ih(2) by simp
  moreover have "sum_list (t # ts) + rem = r" using ih(3) by simp
  moreover have "0 \<le> r \<longrightarrow> 0 \<le> rem" using ih(4) tr by simp
  ultimately show ?case by blast
qed

lemma optimalExecution_sum:
  assumes "0 < orderSize" "0 < total_ask_size stats" "0 < total_bid_size stats" "2 \<le> numSteps"
  shows "dsum (calculateOptimalExecution acp orderSize orderSide stats numSteps) = Fin orderSize
       \<and> length (calculateOptimalExecution acp orderSize orderSide stats numSteps) = nat numSteps"
proof -
  from assms(4) have n: "max 1 numSteps = numSteps" by simp
  from assms(4) have d: "real_of_int (numSteps - 1) \<noteq> 0" by simp
  define rf where "rf = riskAversion acp * (AlmgrenChrissParams.volatility acp)\<^sup>2
                          * timeHorizon acp / real_of_int (numSteps - 1)"
  have rf: "ddiv (Fin (riskAversion acp * (AlmgrenChrissParams.volatility acp)\<^sup>2
                   * timeHorizon acp)) (Fin (real_of_int (numSteps - 1))) = Fin rf"
    using d by (simp add: rf_def)
  from executionLoop_Fin [OF assms(4), of rf orderSize "[0..<nat numSteps]" orderSize]
  obtain ts rem where
    l: "executionLoop (Fin rf) numSteps orderSize [0..<nat numSteps] (Fin orderSize) = (map Fin ts, Fin rem)"
      "length ts = nat numSteps" "sum_list ts + rem = orderSize" "0 \<le> rem"
    using assms(1) by auto
  from l(2) assms(4) have ne: "ts \<noteq> []" by auto
  have eq: "calculateOptimalExecution acp orderSize orderSide stats numSteps
          = (if 0 < rem then butlast (map Fin ts) @ [Fin (last ts + rem)] else map Fin ts)"
    using assms(1-3) ne unfolding calculateOptimalExecution_def n Let_def rf l(1)
    by (simp add: last_map)
  show ?thesis
  proof (cases "0 < rem")
    case True
    have "butlast (map Fin ts) @ [Fin (last ts + rem)] = map Fin (butlast ts @ [last ts + rem])"
      by (simp add: map_butlast)
    moreover have "sum_list (butlast ts @ [last ts + rem]) = sum_list ts + rem"
      using ne by (induction ts) (auto simp: algebra_simps)
    ultimately show ?thesis
      using True l(2,3) ne assms(4) unfolding eq dsum_def
      by (simp only: foldl_dadd_Fin if_True) simp
  next
    case False
    with l(4) have "rem = 0" by simp
    with l(2,3) False show ?thesis unfolding eq dsum_def
      by (simp only: foldl_dadd_Fin if_False) simp
  qed
qed


section \<open>Slippage and fees\<close>







lemma std_clamp_Fin: "std_clamp (Fin x) (Fin lo) (Fin hi) = Fin (clamp x lo hi)"
  by (simp add: std_clamp_def clamp_def)







section \<open>The simulator\<close>

text \<open>
  Claim C10. \<open>updateParams\<close> replaces the stored parameters and the tier identifier of
  the fee model. A negative tier leaves the maker and taker rates as they were; the tiers
  0, 1, 2 and 3 or more assign the rates of the table.
\<close>

theorem updateParams_fee_rates:
  "params (updateParams sim p) = p
   \<and> FeeModel.feeTier (feeModel (transactionCostModel (updateParams sim p)))
       = SimulatorParams.feeTier p
   \<and> (makerFeeRate (feeModel (transactionCostModel (updateParams sim p))),
      takerFeeRate (feeModel (transactionCostModel (updateParams sim p))))
     = (if SimulatorParams.feeTier p < 0
          then (makerFeeRate (feeModel (transactionCostModel sim)),
                takerFeeRate (feeModel (transactionCostModel sim)))
        else if SimulatorParams.feeTier p = 0 then (0.0002, 0.0005)
        else if SimulatorParams.feeTier p = 1 then (0.00015, 0.0004)
        else if SimulatorParams.feeTier p = 2 then (0.0001, 0.0003)
        else (0.00005, 0.0002))"
  by (simp add: updateParams_def Let_def)

lemma updateSimulation_calls:
  "snd (updateSimulation sim stats) = [latestOutput (fst (updateSimulation sim stats))]"
  by (simp add: updateSimulation_def Let_def split: prod.splits)

lemma updateSimulation_internalLatency:
  "internalLatency (latestOutput (fst (updateSimulation sim stats))) = 0"
  by (simp add: updateSimulation_def Let_def SimulatorOutput_default_def split: prod.splits)

text \<open>
  Claim C6 fails on the code. While the simulator runs, \<open>updateSimulation\<close> calls the
  output callback with a value whose \<open>internalLatency\<close> is still the default 0; the
  measured latency is written to the stored latest output after the callback has returned.
\<close>

theorem onOrderbookStats_callback_latency:
  assumes "isRunning sim"
  shows "map internalLatency (snd (onOrderbookStats sim stats latency)) = [0]
       \<and> internalLatency (latestOutput (fst (onOrderbookStats sim stats latency)))
           = real_of_int latency"
proof -
  obtain sim1 calls where u: "updateSimulation sim stats = (sim1, calls)"
    by (cases "updateSimulation sim stats")
  from updateSimulation_calls [of sim stats] updateSimulation_internalLatency [of sim stats] u
  have "map internalLatency calls = [0]" by simp
  with assms u show ?thesis by (simp add: onOrderbookStats_def)
qed


theorem onOrderbookStats_callback_latency_witness:
  "isRunning (Simulator_new\<lparr>isRunning := True\<rparr>)
   \<and> map internalLatency (snd (onOrderbookStats (Simulator_new\<lparr>isRunning := True\<rparr>) exampleStats 7))
       = [0]
   \<and> internalLatency
        (latestOutput (fst (onOrderbookStats (Simulator_new\<lparr>isRunning := True\<rparr>) exampleStats 7)))
       = 7"
  using onOrderbookStats_callback_latency [of "Simulator_new\<lparr>isRunning := True\<rparr>" exampleStats 7]
  by simp


section \<open>The feed client\<close>

lemma readLoop_append:
  "readLoop parse stod (xs @ ys) = readLoop parse stod xs @ readLoop parse stod ys"
  by (induction xs rule: readLoop.induct) simp_all

lemma delivered_append: "delivered (xs @ ys) = delivered xs @ delivered ys"
  by (induction xs rule: delivered.induct) simp_all

lemma unconvertibleLevel_size: "unconvertibleLevel stod level \<Longrightarrow> 2 \<le> json_size level"
  by (induction stod level rule: unconvertibleLevel.induct) simp_all

lemma unconvertibleNumber_cases:
  "unconvertibleNumber stod j \<Longrightarrow> \<exists>str. j = JString str \<and> stod str = None"
  by (cases j) simp_all

lemma parseLevel_malformed:
  assumes "unconvertibleLevel stod level"
  shows "(\<exists>e. parseNumber stod level 0 = Inl e)
       \<or> (\<exists>price e. parseNumber stod level 0 = Inr price \<and> parseNumber stod level 1 = Inl e)"
proof -
  from assms obtain p q others where l: "level = JArray (p # q # others)"
    and m: "unconvertibleNumber stod p \<or> unconvertibleNumber stod q"
    by (induction stod level rule: unconvertibleLevel.induct) simp_all
  show ?thesis
  proof (cases "parseNumber stod level 0")
    case (Inl e)
    then show ?thesis by simp
  next
    case (Inr price)
    then have "\<not> unconvertibleNumber stod p"
      by (auto simp: l parseNumber_def dest!: unconvertibleNumber_cases)
    with m have "unconvertibleNumber stod q" by simp
    then have "parseNumber stod level 1 = Inl StodError"
      by (auto simp: l parseNumber_def dest!: unconvertibleNumber_cases)
    with Inr show ?thesis by simp
  qed
qed

lemma parseLevels_malformed:
  "list_ex (unconvertibleLevel stod) levels \<Longrightarrow> \<exists>e. parseLevels stod levels = Inl e"
proof (induction levels)
  case Nil
  then show ?case by simp
next
  case (Cons level levels)
  show ?case
  proof (cases "unconvertibleLevel stod level")
    case True
    from parseLevel_malformed [OF True] unconvertibleLevel_size [OF True]
    show ?thesis by auto
  next
    case False
    with Cons.prems have "list_ex (unconvertibleLevel stod) levels" by simp
    from Cons.IH [OF this] obtain e where "parseLevels stod levels = Inl e" ..
    then show ?thesis by (simp split: sum.splits)
  qed
qed

lemma getLevelsField_malformed:
  "list_ex (unconvertibleLevel stod) (levelsOf data key) \<Longrightarrow> \<exists>e. getLevelsField stod data key = Inl e"
  by (cases "json_at_key data key")
     (simp_all add: getLevelsField_def levelsOf_def parseLevels_malformed)

lemma hasRequiredFields_iff: "hasRequiredFields data \<longleftrightarrow> \<not> missingRequiredField data"
  by (auto simp: hasRequiredFields_def missingRequiredField_def requiredFields_def)

lemma parseOrderbookData_rejected:
  assumes "rejected parse stod message"
  shows "\<exists>e. parseOrderbookData parse stod now message = Inl e"
proof (cases "parse message")
  case None
  then show ?thesis by (simp add: parseOrderbookData_def)
next
  case (Some data)
  with assms have r: "missingRequiredField data \<or> containsUnconvertibleNumber stod data"
    by (simp add: rejected_def)
  show ?thesis
  proof (cases "missingRequiredField data")
    case True
    then show ?thesis by (simp add: parseOrderbookData_def Some hasRequiredFields_iff)
  next
    case False
    with r have "containsUnconvertibleNumber stod data" by simp
    then consider (a) "\<exists>e. getLevelsField stod data ''asks'' = Inl e"
      | (b) "\<exists>e. getLevelsField stod data ''bids'' = Inl e"
      unfolding containsUnconvertibleNumber_def using getLevelsField_malformed by blast
    then show ?thesis
    proof cases
      case a
      then show ?thesis
        by (auto simp: parseOrderbookData_def Some split: sum.splits)
    next
      case b
      then show ?thesis
        by (auto simp: parseOrderbookData_def Some split: sum.splits)
    qed
  qed
qed

text \<open>
  Claim C7, as the code has it. A message that is no JSON, that misses one of the fields
  timestamp, exchange, symbol, asks and bids, or that has a level of at least two
  elements whose price or size is a string on which \<^verbatim>\<open>std::stod\<close> throws, makes
  \<open>processMessage\<close> report an error and nothing else: the callback is not called for it,
  and the read loop goes on with the messages after it as if the message had not arrived.
  This holds whatever the two library functions are.
\<close>

theorem unconvertible_message_dropped:
  assumes "rejected parse stod message"
  shows "\<exists>e. processMessage parse stod now message = [ErrorReported e]
           \<and> readLoop parse stod (before @ (message, now) # after)
               = readLoop parse stod before @ [ErrorReported e] @ readLoop parse stod after
           \<and> delivered (readLoop parse stod (before @ (message, now) # after))
               = delivered (readLoop parse stod before) @ delivered (readLoop parse stod after)"
proof -
  from parseOrderbookData_rejected [OF assms]
  obtain e where "parseOrderbookData parse stod now message = Inl e" ..
  then have "processMessage parse stod now message = [ErrorReported e]"
    by (simp add: processMessage_def)
  then show ?thesis by (simp add: readLoop_append delivered_append)
qed

lemma stod_examples:
  "std_stod ''12abc'' = Some 12"
  "std_stod ''abc'' = None"
  "std_stod ''9.06'' = Some 9.06"
  "std_stod ''95445.5'' = Some 95445.5"
  "std_stod ''95445.4'' = Some 95445.4"
  "std_stod ''1104.23'' = Some 1104.23"
  by (simp_all add: std_stod_def scanDecimal_def isSpace_def isDigit_def digitsValue_def)

lemma malformed_examples:
  "malformedNumericString ''12abc''" "malformedNumericString ''abc''"
  "\<not> malformedNumericString ''9.06''"
  by (simp_all add: malformedNumericString_def decimalNumeral_def scanDecimal_def isDigit_def
        digitsValue_def)

theorem unconvertible_message_dropped_witness:
  "rejected exampleParse std_stod ''no-bids''
   \<and> processMessage exampleParse std_stod 0 ''no-bids'' = [ErrorReported MissingRequiredFields]
   \<and> rejected exampleParse std_stod ''bad-price''
   \<and> readLoop exampleParse std_stod [(''bad-price'', 10), (''good'', 20)]
       = [ErrorReported StodError,
          Callback \<lparr>timestamp = ''2025-05-04T10:39:13Z'', OrderbookData.exchange = ''OKX'',
                    OrderbookData.symbol = ''BTC-USDT-SWAP'', asks = [(95445.5, 9.06)],
                    bids = [(95445.4, 1104.23)], received_time = 20\<rparr>]"
proof -
  have r1: "rejected exampleParse std_stod ''no-bids''"
    by (simp add: rejected_def exampleParse_def exampleHeader_def missingRequiredField_def
          requiredFields_def)
  have r2: "rejected exampleParse std_stod ''bad-price''"
    by (simp add: rejected_def exampleParse_def exampleHeader_def
          containsUnconvertibleNumber_def levelsOf_def stod_examples)
  have g: "processMessage exampleParse std_stod 20 ''good''
             = [Callback \<lparr>timestamp = ''2025-05-04T10:39:13Z'', OrderbookData.exchange = ''OKX'',
                    OrderbookData.symbol = ''BTC-USDT-SWAP'', asks = [(95445.5, 9.06)],
                    bids = [(95445.4, 1104.23)], received_time = 20\<rparr>]"
    by (simp add: processMessage_def parseOrderbookData_def exampleParse_def exampleHeader_def
          hasRequiredFields_def getStringField_def getLevelsField_def parseNumber_def
          stod_examples)
  have p1: "parseOrderbookData exampleParse std_stod 0 ''no-bids'' = Inl MissingRequiredFields"
    by (simp add: parseOrderbookData_def exampleParse_def exampleHeader_def
          hasRequiredFields_def)
  have p2: "parseOrderbookData exampleParse std_stod 10 ''bad-price'' = Inl StodError"
    by (simp add: parseOrderbookData_def exampleParse_def exampleHeader_def
          hasRequiredFields_def getStringField_def getLevelsField_def parseNumber_def
          stod_examples)
  have m1: "processMessage exampleParse std_stod 0 ''no-bids''
              = [ErrorReported MissingRequiredFields]"
    by (simp add: processMessage_def p1)
  have m2: "processMessage exampleParse std_stod 10 ''bad-price'' = [ErrorReported StodError]"
    by (simp add: processMessage_def p2)
  from unconvertible_message_dropped [OF r1, of 0 "[]" "[]"]
       unconvertible_message_dropped [OF r2, of 10 "[]" "[(''good'', 20)]"]
  show ?thesis
    using r1 r2 by (simp add: m1 m2 g)
qed

text \<open>
  Claim C7 as it is stated fails for malformed numeric strings that \<^verbatim>\<open>std::stod\<close>
  converts or that the parser never reads. The price \<^verbatim>\<open>12abc\<close> is converted by its
  prefix to 12, and a level with the one element \<^verbatim>\<open>abc\<close> is skipped: in both cases
  the callback is called with the snapshot.
\<close>

theorem malformed_message_delivered:
  "exampleParse ''prefix-price''
     = Some (JObject (exampleHeader @
         [(''asks'', JArray [JArray [JString ''12abc'', JString ''9.06'']]),
          (''bids'', JArray [JArray [JString ''95445.4'', JString ''1104.23'']])]))
   \<and> malformedNumericString ''12abc''
   \<and> processMessage exampleParse std_stod 0 ''prefix-price''
       = [Callback \<lparr>timestamp = ''2025-05-04T10:39:13Z'', OrderbookData.exchange = ''OKX'',
                    OrderbookData.symbol = ''BTC-USDT-SWAP'', asks = [(12, 9.06)],
                    bids = [(95445.4, 1104.23)], received_time = 0\<rparr>]
   \<and> exampleParse ''short-level''
     = Some (JObject (exampleHeader @
         [(''asks'', JArray [JArray [JString ''abc'']]),
          (''bids'', JArray [JArray [JString ''95445.4'', JString ''1104.23'']])]))
   \<and> malformedNumericString ''abc''
   \<and> processMessage exampleParse std_stod 0 ''short-level''
       = [Callback \<lparr>timestamp = ''2025-05-04T10:39:13Z'', OrderbookData.exchange = ''OKX'',
                    OrderbookData.symbol = ''BTC-USDT-SWAP'', asks = [],
                    bids = [(95445.4, 1104.23)], received_time = 0\<rparr>]"
  by (simp add: malformed_examples processMessage_def parseOrderbookData_def exampleParse_def
        exampleHeader_def hasRequiredFields_def getStringField_def getLevelsField_def
        parseNumber_def stod_examples)

lemma sleptDelays_append: "sleptDelays (xs @ ys) = sleptDelays xs @ sleptDelays ys"
  by (induction xs rule: sleptDelays.induct) simp_all

lemma sleptDelays_readLoop: "sleptDelays (readLoop parse stod messages) = []"
  by (induction messages rule: readLoop.induct)
     (simp_all add: sleptDelays_append processMessage_def split: sum.splits)

lemma connect_state:
  "shouldRun (fst (connect parse stod ws s)) = shouldRun ws"
  "reconnectDelayMs (fst (connect parse stod ws s)) = reconnectDelayMs ws"
  "sleptDelays (snd (connect parse stod ws s)) = []"
  by (cases s; simp add: sleptDelays_readLoop)+

lemma runIoService_delays:
  "shouldRun ws \<Longrightarrow>
     sleptDelays (snd (runIoService parse stod ws sessions))
       = backoffFrom (reconnectDelayMs ws) (length sessions)"
proof (induction sessions arbitrary: ws)
  case Nil
  show ?case by simp
next
  case (Cons s sessions)
  obtain ws1 ev1 where c: "connect parse stod ws s = (ws1, ev1)" by (cases "connect parse stod ws s")
  from connect_state [of parse stod ws s] c
  have ws1: "shouldRun ws1 = shouldRun ws" "reconnectDelayMs ws1 = reconnectDelayMs ws"
    "sleptDelays ev1 = []" by simp_all
  let ?ws2 = "fst (reconnect ws1)"
  have ws2: "shouldRun ?ws2" "reconnectDelayMs ?ws2 = min (reconnectDelayMs ws * 2) kReconnectMaxDelayMs"
    using Cons.prems ws1 by (simp_all add: reconnect_def)
  from Cons.IH [OF ws2(1)] ws2(2)
  have "sleptDelays (snd (runIoService parse stod ?ws2 sessions))
          = backoffFrom (min (reconnectDelayMs ws * 2) kReconnectMaxDelayMs) (length sessions)"
    by simp
  then show ?case
    using Cons.prems c ws1
    by (simp add: reconnect_def sleptDelays_append case_prod_beta)
qed

lemma backoff_step:
  "min (min (1000 * 2 ^ k) 60000 * 2) (60000::int) = min (1000 * 2 ^ Suc k) 60000"
  by (simp add: min_def)

lemma backoffFrom_closed:
  "backoffFrom (min (1000 * 2 ^ j) 60000) n = map (\<lambda>k. min (1000 * 2 ^ (j + k)) 60000) [0..<n]"
proof (induction n arbitrary: j)
  case 0
  show ?case by simp
next
  case (Suc n)
  show ?case
    using Suc.IH [of "Suc j"]
    by (simp add: kReconnectMaxDelayMs_def backoff_step map_upt_Suc del: upt_Suc)
qed

lemma backoffDelay_upt:
  "map backoffDelay [1..<Suc n] = map (\<lambda>k. min (1000 * 2 ^ k) 60000) [0..<n]"
proof -
  have "[1..<Suc n] = map Suc [0..<n]" by (simp only: map_Suc_upt One_nat_def)
  then show ?thesis by (simp add: backoffDelay_def comp_def del: upt_Suc)
qed

text \<open>
  Every delay lies between 1000 and 60000, so doubling it stays far inside the range of
  the 32-bit \<^verbatim>\<open>int\<close> that holds it.
\<close>

lemma backoffDelay_range: "1000 \<le> backoffDelay k \<and> backoffDelay k \<le> 60000"
proof -
  have "(1::int) \<le> 2 ^ (k - 1)" by simp
  then show ?thesis by (simp add: backoffDelay_def)
qed

text \<open>
  Claim C5. After a \<open>start\<close> call that starts the client, whatever the delay was before,
  the delays that \<open>reconnect\<close> sleeps are, in order, \<open>min (1000 * 2 ^ (k - 1)) 60000\<close> for
  \<open>k = 1, 2, ...\<close>, one per connection attempt, whether the attempt fails at the handshake
  or delivers messages first.
\<close>

theorem backoff_delays:
  assumes "\<not> shouldRun ws"
  shows "sleptDelays (snd (runIoService parse stod (start ws) sessions))
           = map backoffDelay [1..<Suc (length sessions)]"
proof -
  from assms have s: "shouldRun (start ws)" "reconnectDelayMs (start ws) = 1000"
    by (simp_all add: start_def kReconnectInitialDelayMs_def)
  have "sleptDelays (snd (runIoService parse stod (start ws) sessions))
          = backoffFrom (min (1000 * 2 ^ 0) 60000) (length sessions)"
    using runIoService_delays [OF s(1)] s(2) by simp
  also have "\<dots> = map backoffDelay [1..<Suc (length sessions)]"
    unfolding backoffFrom_closed backoffDelay_upt by simp
  finally show ?thesis .
qed


theorem backoff_delays_witness:
  "\<not> shouldRun (WebSocketClient_new\<lparr>reconnectDelayMs := 32000\<rparr>)
   \<and> sleptDelays (snd (runIoService exampleParse exampleStod
        (start (WebSocketClient_new\<lparr>reconnectDelayMs := 32000\<rparr>)) exampleSessions))
       = [1000, 2000, 4000, 8000, 16000, 32000, 60000, 60000]"
proof -
  have e: "map backoffDelay [1..<Suc (length exampleSessions)]
             = [1000, 2000, 4000, 8000, 16000, 32000, 60000, 60000]"
    by code_simp
  have n: "\<not> shouldRun (WebSocketClient_new\<lparr>reconnectDelayMs := 32000\<rparr>)"
    by (simp add: WebSocketClient_new_def)
  have "sleptDelays (snd (runIoService exampleParse exampleStod
          (start (WebSocketClient_new\<lparr>reconnectDelayMs := 32000\<rparr>)) exampleSessions))
        = [1000, 2000, 4000, 8000, 16000, 32000, 60000, 60000]"
    using backoff_delays [OF n, of exampleParse exampleStod exampleSessions] unfolding e .
  with n show ?thesis ..
qed

end
